theory Spec2Isabelle
  imports Main "HOL-Library.Word"
begin

section \<open>JavaScript strings\<close>

text \<open>
  A JavaScript string is a sequence of 16-bit code units. Literals of the source are
  written \<open>js ''...''\<close>: every character of an ASCII literal is one code unit.
\<close>

type_synonym code_unit = "16 word"

type_synonym jsstring = "code_unit list"

definition cu :: "char \<Rightarrow> code_unit" where
  "cu c = of_char c"

definition js :: "string \<Rightarrow> jsstring" where
  "js s = map cu s"

text \<open>
  \<open>Array.prototype.join\<close> on an array whose elements are already converted to strings:
  the elements in order, the separator between neighbours, the empty string for the
  empty array.
\<close>

fun join :: "jsstring \<Rightarrow> jsstring list \<Rightarrow> jsstring" where
  "join sep [] = []"
| "join sep [x] = x"
| "join sep (x # y # ys) = x @ sep @ join sep (y # ys)"

section \<open>The field map of \<open>_convertProfileFields\<close>\<close>

text \<open>
  The values that the array \<open>fields\<close> of \<open>_convertProfileFields\<close> can hold: a string
  (an entry passed through, or a mapped name), an array (the one-to-many case of the
  map), and the two kinds of value that a property read on an object literal finds on
  \<open>Object.prototype\<close>: a built-in function, and \<open>Object.prototype\<close> itself (what the
  accessor \<open>__proto__\<close> returns for an object literal).
\<close>

datatype fieldval =
    FString jsstring
  | FArray "fieldval list"
  | FNative jsstring
  | FObjectPrototype

text \<open>
  \<open>ToString\<close>, as \<open>join\<close> applies it to every element: a string is itself, an array
  is its elements joined by commas, a built-in function prints as V8 prints it, and a
  plain object prints as \<open>[object Object]\<close>.
\<close>

fun toString :: "fieldval \<Rightarrow> jsstring" where
  "toString (FString s) = s"
| "toString (FArray vs) = join (js '','') (map toString vs)"
| "toString (FNative n) = js ''function '' @ n @ js ''() { [native code] }''"
| "toString FObjectPrototype = js ''[object Object]''"

text \<open>The own properties of the object literal \<open>map\<close>, in source order.\<close>

definition map_object :: "(jsstring \<times> fieldval) list" where
  "map_object =
     [(js ''id'', FString (js ''id'')),
      (js ''username'', FString (js ''username'')),
      (js ''account_type'', FString (js ''account_type'')),
      (js ''media_count'', FString (js ''media_count''))]"

text \<open>
  The properties that every object literal inherits from \<open>Object.prototype\<close>: the
  built-in methods, and the accessor \<open>__proto__\<close>, which yields the prototype itself.
\<close>

definition object_prototype :: "(jsstring \<times> fieldval) list" where
  "object_prototype =
     [(js ''constructor'', FNative (js ''Object'')),
      (js ''__defineGetter__'', FNative (js ''__defineGetter__'')),
      (js ''__defineSetter__'', FNative (js ''__defineSetter__'')),
      (js ''hasOwnProperty'', FNative (js ''hasOwnProperty'')),
      (js ''__lookupGetter__'', FNative (js ''__lookupGetter__'')),
      (js ''__lookupSetter__'', FNative (js ''__lookupSetter__'')),
      (js ''isPrototypeOf'', FNative (js ''isPrototypeOf'')),
      (js ''propertyIsEnumerable'', FNative (js ''propertyIsEnumerable'')),
      (js ''toString'', FNative (js ''toString'')),
      (js ''valueOf'', FNative (js ''valueOf'')),
      (js ''__proto__'', FObjectPrototype),
      (js ''toLocaleString'', FNative (js ''toLocaleString''))]"

text \<open>
  The property read \<open>map[f]\<close>: an own property of \<open>map\<close> if there is one, otherwise
  what the prototype chain gives; \<open>None\<close> stands for \<open>undefined\<close>.
\<close>

definition map_get :: "jsstring \<Rightarrow> fieldval option" where
  "map_get f =
     (case map_of map_object f of
        Some v \<Rightarrow> Some v
      | None \<Rightarrow> map_of object_prototype f)"

text \<open>
  The body of the \<open>forEach\<close> callback: \<open>undefined\<close> pushes the entry itself, an array
  pushes all its elements, anything else is pushed as it is.
\<close>

definition pushField :: "fieldval list \<Rightarrow> jsstring \<Rightarrow> fieldval list" where
  "pushField fields f =
     (case map_get f of
        None \<Rightarrow> fields @ [FString f]
      | Some (FArray vs) \<Rightarrow> fields @ vs
      | Some v \<Rightarrow> fields @ [v])"

definition convertProfileFields :: "jsstring list \<Rightarrow> jsstring" where
  "convertProfileFields profileFields =
     join (js '','') (map toString (foldl pushField [] profileFields))"

section \<open>JSON documents and \<open>JSON.parse\<close>\<close>

text \<open>
  The values that \<open>JSON.parse\<close> returns, and \<open>undefined\<close>, which a read of a
  missing property yields. An object keeps its members in the order of the text, a
  repeated key included; a read takes the last one, as the later member overwrites the
  earlier one. A number is kept as its literal: nothing here computes with numbers.
\<close>

datatype jsval =
    JUndefined
  | JNull
  | JBool bool
  | JNum jsstring
  | JStr jsstring
  | JArr "jsval list"
  | JObj "(jsstring \<times> jsval) list"

datatype js_error = SyntaxError | TypeError

subsection \<open>Tokens\<close>

datatype token =
    LBrace | RBrace | LBracket | RBracket | Colon | Comma
  | TString jsstring | TNumber jsstring | TTrue | TFalse | TNull

text \<open>JSON white space is space, tab, line feed and carriage return.\<close>

definition is_ws :: "code_unit \<Rightarrow> bool" where
  "is_ws c = (c = 0x20 \<or> c = 0x09 \<or> c = 0x0A \<or> c = 0x0D)"

definition is_digit :: "code_unit \<Rightarrow> bool" where
  "is_digit c = (cu CHR ''0'' \<le> c \<and> c \<le> cu CHR ''9'')"

definition hex_digit :: "code_unit \<Rightarrow> code_unit option" where
  "hex_digit c =
     (if cu CHR ''0'' \<le> c \<and> c \<le> cu CHR ''9'' then Some (c - cu CHR ''0'')
      else if cu CHR ''a'' \<le> c \<and> c \<le> cu CHR ''f'' then Some (c - cu CHR ''a'' + 10)
      else if cu CHR ''A'' \<le> c \<and> c \<le> cu CHR ''F'' then Some (c - cu CHR ''A'' + 10)
      else None)"

definition hex4 :: "code_unit \<Rightarrow> code_unit \<Rightarrow> code_unit \<Rightarrow> code_unit \<Rightarrow> code_unit option" where
  "hex4 a b c d =
     (case (hex_digit a, hex_digit b, hex_digit c, hex_digit d) of
        (Some h1, Some h2, Some h3, Some h4) \<Rightarrow> Some (((h1 * 16 + h2) * 16 + h3) * 16 + h4)
      | _ \<Rightarrow> None)"

definition unescape :: "code_unit \<Rightarrow> code_unit option" where
  "unescape e =
     (if e = cu CHR 0x22 then Some 0x22
      else if e = cu CHR 0x5C then Some 0x5C
      else if e = cu CHR ''/'' then Some 0x2F
      else if e = cu CHR ''b'' then Some 0x08
      else if e = cu CHR ''f'' then Some 0x0C
      else if e = cu CHR ''n'' then Some 0x0A
      else if e = cu CHR ''r'' then Some 0x0D
      else if e = cu CHR ''t'' then Some 0x09
      else None)"

text \<open>
  A string, read from behind its opening quote up to the closing one: an escape is
  decoded, a control character below U+0020 is refused. The result is the string and
  the rest of the input.
\<close>

fun lex_string :: "jsstring \<Rightarrow> (jsstring \<times> jsstring) option" where
  "lex_string [] = None"
| "lex_string (c # cs) =
     (if c = 0x22 then Some ([], cs)
      else if c = 0x5C then
        (case cs of
           [] \<Rightarrow> None
         | e # cs' \<Rightarrow>
             if e = cu CHR ''u'' then
               (case cs' of
                  a # b # c # d # cs'' \<Rightarrow>
                    (case hex4 a b c d of
                       None \<Rightarrow> None
                     | Some u \<Rightarrow> map_option (\<lambda>(s, r). (u # s, r)) (lex_string cs''))
                | _ \<Rightarrow> None)
             else
               (case unescape e of
                  None \<Rightarrow> None
                | Some u \<Rightarrow> map_option (\<lambda>(s, r). (u # s, r)) (lex_string cs')))
      else if c < 0x20 then None
      else map_option (\<lambda>(s, r). (c # s, r)) (lex_string cs))"

text \<open>
  A number: an optional minus, an integer part without a leading zero (or the single
  digit zero), an optional fraction and an optional exponent.
\<close>

definition lex_digits :: "jsstring \<Rightarrow> (jsstring \<times> jsstring) option" where
  "lex_digits cs =
     (if takeWhile is_digit cs = [] then None
      else Some (takeWhile is_digit cs, dropWhile is_digit cs))"

definition lex_int :: "jsstring \<Rightarrow> (jsstring \<times> jsstring) option" where
  "lex_int cs =
     (case cs of
        [] \<Rightarrow> None
      | c # cs' \<Rightarrow>
          if c = cu CHR ''0'' then Some ([c], cs')
          else lex_digits cs)"

definition lex_frac :: "jsstring \<Rightarrow> (jsstring \<times> jsstring) option" where
  "lex_frac cs =
     (case cs of
        [] \<Rightarrow> Some ([], cs)
      | c # cs' \<Rightarrow>
          if c = cu CHR ''.'' then map_option (\<lambda>(ds, r). (c # ds, r)) (lex_digits cs')
          else Some ([], cs))"

definition lex_exp :: "jsstring \<Rightarrow> (jsstring \<times> jsstring) option" where
  "lex_exp cs =
     (case cs of
        [] \<Rightarrow> Some ([], cs)
      | c # cs' \<Rightarrow>
          if c = cu CHR ''e'' \<or> c = cu CHR ''E'' then
            (case cs' of
               [] \<Rightarrow> None
             | s # cs'' \<Rightarrow>
                 if s = cu CHR ''+'' \<or> s = cu CHR ''-'' then
                   map_option (\<lambda>(ds, r). (c # s # ds, r)) (lex_digits cs'')
                 else map_option (\<lambda>(ds, r). (c # ds, r)) (lex_digits cs'))
          else Some ([], cs))"

definition lex_number :: "jsstring \<Rightarrow> (jsstring \<times> jsstring) option" where
  "lex_number cs =
     (let (sign, r0) = (case cs of [] \<Rightarrow> ([], cs)
                        | c # cs' \<Rightarrow> if c = cu CHR ''-'' then ([c], cs') else ([], cs))
      in case lex_int r0 of
           None \<Rightarrow> None
         | Some (i, r1) \<Rightarrow>
             (case lex_frac r1 of
                None \<Rightarrow> None
              | Some (f, r2) \<Rightarrow>
                  (case lex_exp r2 of
                     None \<Rightarrow> None
                   | Some (e, r3) \<Rightarrow> Some (sign @ i @ f @ e, r3))))"

definition lex_literal :: "jsstring \<Rightarrow> (token \<times> jsstring) option" where
  "lex_literal cs =
     (if take 4 cs = js ''true'' then Some (TTrue, drop 4 cs)
      else if take 5 cs = js ''false'' then Some (TFalse, drop 5 cs)
      else if take 4 cs = js ''null'' then Some (TNull, drop 4 cs)
      else None)"

definition punctuator :: "code_unit \<Rightarrow> token option" where
  "punctuator c =
     (if c = cu CHR ''{'' then Some LBrace
      else if c = cu CHR ''}'' then Some RBrace
      else if c = cu CHR ''['' then Some LBracket
      else if c = cu CHR '']'' then Some RBracket
      else if c = cu CHR '':'' then Some Colon
      else if c = cu CHR '','' then Some Comma
      else None)"

definition next_token :: "code_unit \<Rightarrow> jsstring \<Rightarrow> (token \<times> jsstring) option" where
  "next_token c cs =
     (case punctuator c of
        Some t \<Rightarrow> Some (t, cs)
      | None \<Rightarrow>
          if c = 0x22 then map_option (\<lambda>(s, r). (TString s, r)) (lex_string cs)
          else if c = cu CHR ''-'' \<or> is_digit c then
            map_option (\<lambda>(n, r). (TNumber n, r)) (lex_number (c # cs))
          else lex_literal (c # cs))"

text \<open>Every token consumes at least one code unit, so the tokenizer terminates.\<close>

lemma lex_string_length: "lex_string cs = Some (s, r) \<Longrightarrow> length r < Suc (length cs)"
proof (induction cs arbitrary: s r rule: lex_string.induct)
  case 1
  then show ?case by simp
next
  case (2 c cs)
  then show ?case
    by (auto split: if_splits list.splits option.splits) fastforce+
qed

lemma lex_digits_length: "lex_digits cs = Some (ds, r) \<Longrightarrow> length r < length cs"
proof -
  assume a: "lex_digits cs = Some (ds, r)"
  then have t: "takeWhile is_digit cs \<noteq> []" and r: "r = dropWhile is_digit cs"
    by (auto simp: lex_digits_def split: if_splits)
  have "length (takeWhile is_digit cs) + length (dropWhile is_digit cs) = length cs"
    by (metis length_append takeWhile_dropWhile_id)
  with t r show ?thesis
    by (cases "takeWhile is_digit cs") auto
qed

lemma lex_int_length: "lex_int cs = Some (ds, r) \<Longrightarrow> length r < length cs"
  by (auto simp: lex_int_def split: list.splits if_splits dest: lex_digits_length)

lemma lex_frac_length: "lex_frac cs = Some (ds, r) \<Longrightarrow> length r \<le> length cs"
  by (auto simp: lex_frac_def split: list.splits if_splits dest!: lex_digits_length)

lemma lex_exp_length: "lex_exp cs = Some (ds, r) \<Longrightarrow> length r \<le> length cs"
  by (auto simp: lex_exp_def split: list.splits if_splits dest!: lex_digits_length)

lemma lex_number_length:
  assumes "lex_number (c # cs) = Some (n, r)"
  shows "length r < Suc (length cs)"
proof -
  obtain sign r0 where s: "(case c # cs of [] \<Rightarrow> ([], c # cs)
                        | c' # cs' \<Rightarrow> if c' = cu CHR ''-'' then ([c'], cs') else ([], c # cs)) = (sign, r0)"
    by fastforce
  then have l0: "length r0 \<le> Suc (length cs)" by (auto split: if_splits)
  from assms s obtain i r1 f r2 e where
    "lex_int r0 = Some (i, r1)" "lex_frac r1 = Some (f, r2)" "lex_exp r2 = Some (e, r)"
    by (auto simp: lex_number_def Let_def split: option.splits prod.splits if_splits)
  then have "length r1 < length r0" "length r2 \<le> length r1" "length r \<le> length r2"
    by (auto dest: lex_int_length lex_frac_length lex_exp_length)
  with l0 show ?thesis by simp
qed

lemma next_token_length: "next_token c cs = Some (t, r) \<Longrightarrow> length r < Suc (length cs)"
  by (auto simp: next_token_def lex_literal_def
      split: option.splits if_splits dest: lex_string_length lex_number_length)

function lex :: "jsstring \<Rightarrow> token list option" where
  "lex [] = Some []"
| "lex (c # cs) =
     (if is_ws c then lex cs
      else
        (case next_token c cs of
           None \<Rightarrow> None
         | Some (t, r) \<Rightarrow> map_option (Cons t) (lex r)))"
  by pat_completeness auto
termination
  by (relation "measure length") (auto dest: next_token_length)

subsection \<open>Values\<close>

text \<open>
  The JSON grammar over tokens: a value, the elements of a non-empty array up to its
  closing bracket, and the members of a non-empty object up to its closing brace. Each
  function returns what it read and the tokens left.
\<close>

function (sequential) parse_value :: "token list \<Rightarrow> (jsval \<times> token list) option"
  and parse_elements :: "token list \<Rightarrow> (jsval list \<times> token list) option"
  and parse_members :: "token list \<Rightarrow> ((jsstring \<times> jsval) list \<times> token list) option"
where
  "parse_value [] = None"
| "parse_value (TString s # ts) = Some (JStr s, ts)"
| "parse_value (TNumber n # ts) = Some (JNum n, ts)"
| "parse_value (TTrue # ts) = Some (JBool True, ts)"
| "parse_value (TFalse # ts) = Some (JBool False, ts)"
| "parse_value (TNull # ts) = Some (JNull, ts)"
| "parse_value (LBracket # RBracket # ts) = Some (JArr [], ts)"
| "parse_value (LBracket # ts) = map_option (\<lambda>(vs, r). (JArr vs, r)) (parse_elements ts)"
| "parse_value (LBrace # RBrace # ts) = Some (JObj [], ts)"
| "parse_value (LBrace # ts) = map_option (\<lambda>(ms, r). (JObj ms, r)) (parse_members ts)"
| "parse_value (_ # ts) = None"
| "parse_elements ts =
     (case parse_value ts of
        None \<Rightarrow> None
      | Some (v, r) \<Rightarrow>
          (case r of
             RBracket # r' \<Rightarrow> Some ([v], r')
           | Comma # r' \<Rightarrow> map_option (\<lambda>(vs, r''). (v # vs, r'')) (parse_elements r')
           | _ \<Rightarrow> None))"
| "parse_members (TString k # Colon # ts) =
     (case parse_value ts of
        None \<Rightarrow> None
      | Some (v, r) \<Rightarrow>
          (case r of
             RBrace # r' \<Rightarrow> Some ([(k, v)], r')
           | Comma # r' \<Rightarrow> map_option (\<lambda>(ms, r''). ((k, v) # ms, r'')) (parse_members r')
           | _ \<Rightarrow> None))"
| "parse_members _ = None"
  by pat_completeness auto

text \<open>
  Termination: whatever is returned leaves fewer tokens than were given. While the
  functions are not yet known to be total this is proved on their domain.
\<close>

lemma parse_shrinks:
  "parse_value_parse_elements_parse_members_dom (Inl ts) \<Longrightarrow>
     (\<forall>v r. parse_value ts = Some (v, r) \<longrightarrow> length r < length ts)"
  "parse_value_parse_elements_parse_members_dom (Inr (Inl ts)) \<Longrightarrow>
     (\<forall>vs r. parse_elements ts = Some (vs, r) \<longrightarrow> length r < length ts)"
  "parse_value_parse_elements_parse_members_dom (Inr (Inr ts)) \<Longrightarrow>
     (\<forall>ms r. parse_members ts = Some (ms, r) \<longrightarrow> length r < length ts)"
proof (induction rule: parse_value_parse_elements_parse_members.pinduct)
qed (auto simp: parse_value.psimps parse_elements.psimps parse_members.psimps
      split: option.splits list.splits token.splits prod.splits, fastforce+)

termination parse_value
proof (relation "measure (\<lambda>x. case x of
          Inl ts \<Rightarrow> 2 * length ts
        | Inr (Inl ts) \<Rightarrow> 2 * length ts + 1
        | Inr (Inr ts) \<Rightarrow> 2 * length ts + 1)", goal_cases)
qed (auto dest!: parse_shrinks(1)[rule_format])

text \<open>
  \<open>JSON.parse\<close>: the text must be exactly one value (white space around it apart);
  anything else throws a \<open>SyntaxError\<close>.
\<close>

definition JSON_parse :: "jsstring \<Rightarrow> js_error + jsval" where
  "JSON_parse text =
     (case lex text of
        None \<Rightarrow> Inl SyntaxError
      | Some ts \<Rightarrow>
          (case parse_value ts of
             Some (v, []) \<Rightarrow> Inr v
           | _ \<Rightarrow> Inl SyntaxError))"

section \<open>The strategy\<close>

subsection \<open>Construction\<close>

text \<open>
  The options object. A property is \<open>None\<close> when the caller did not set it.
  \<open>clientID\<close>, \<open>clientSecret\<close> and \<open>callbackURL\<close> are only handed on to the
  inherited constructor.
\<close>

record options =
  clientID :: "jsstring option"
  clientSecret :: "jsstring option"
  callbackURL :: "jsstring option"
  authorizationURL :: "jsstring option"
  tokenURL :: "jsstring option"
  profileURL :: "jsstring option"
  profileFields :: "jsstring list option"

text \<open>The empty object \<open>{}\<close>.\<close>

definition empty_options :: options where
  "empty_options =
     \<lparr>clientID = None, clientSecret = None, callbackURL = None, authorizationURL = None,
      tokenURL = None, profileURL = None, profileFields = None\<rparr>"

text \<open>The empty object after the constructor has defaulted its two endpoints.\<close>

definition default_options :: options where
  "default_options =
     empty_options\<lparr>authorizationURL := Some (js ''https://api.instagram.com/oauth/authorize/''),
                   tokenURL := Some (js ''https://api.instagram.com/oauth/access_token'')\<rparr>"

text \<open>
  The strategy object: \<open>this.name\<close>, \<open>this._oauth2\<close> (the engine that the inherited
  constructor creates), \<open>this._profileURL\<close> and \<open>this._profileFields\<close>.
\<close>

record 'o strategy =
  this_name :: jsstring
  this_oauth2 :: 'o
  this_profileURL :: jsstring
  this_profileFields :: "jsstring list"

text \<open>
  \<open>a || b\<close> where \<open>a\<close> is a string or \<open>undefined\<close>: the empty string is falsy, as
  \<open>undefined\<close> is. For an array or \<open>undefined\<close>: every array is truthy, the empty
  one too.
\<close>

definition truthy :: "jsstring option \<Rightarrow> bool" where
  "truthy a = (case a of None \<Rightarrow> False | Some s \<Rightarrow> s \<noteq> [])"

definition or_string :: "jsstring option \<Rightarrow> jsstring \<Rightarrow> jsstring" where
  "or_string a b = (if truthy a then the a else b)"

definition or_array :: "jsstring list option \<Rightarrow> jsstring list \<Rightarrow> jsstring list" where
  "or_array a b = (case a of None \<Rightarrow> b | Some xs \<Rightarrow> xs)"

text \<open>
  The constructor. \<open>OAuth2Strategy\<close> is the inherited constructor of passport-oauth2,
  called on the options with the two endpoints defaulted: it throws or it yields the
  engine. \<open>options\<close> is \<open>None\<close> when the caller passed none.
\<close>

definition Strategy ::
  "(options \<Rightarrow> 'v option \<Rightarrow> js_error + 'o) \<Rightarrow> options option \<Rightarrow> 'v option
     \<Rightarrow> js_error + 'o strategy" where
  "Strategy OAuth2Strategy options verify =
     (let options = (case options of None \<Rightarrow> empty_options | Some opts \<Rightarrow> opts);
          options = options\<lparr>authorizationURL :=
            Some (or_string (authorizationURL options)
                    (js ''https://api.instagram.com/oauth/authorize/''))\<rparr>;
          options = options\<lparr>tokenURL :=
            Some (or_string (tokenURL options)
                    (js ''https://api.instagram.com/oauth/access_token''))\<rparr>
      in case OAuth2Strategy options verify of
           Inl e \<Rightarrow> Inl e
         | Inr oauth2 \<Rightarrow>
             Inr \<lparr>this_name = js ''instagram'',
                  this_oauth2 = oauth2,
                  this_profileURL =
                    or_string (profileURL options) (js ''https://graph.instagram.com/me''),
                  this_profileFields =
                    or_array (profileFields options) [js ''id'', js ''username'']\<rparr>)"

subsection \<open>The request URL\<close>

text \<open>
  The strategy reads and writes one property of the object that \<open>uri.parse\<close> returns:
  \<open>search\<close>, a string or \<open>null\<close>. Everything else of that object is the record's
  extension. The module \<open>uri\<close> itself is a parameter.
\<close>

record urlObject =
  search :: "jsstring option"

record 'u uri =
  parse :: "jsstring \<Rightarrow> 'u"
  format :: "'u \<Rightarrow> jsstring"

text \<open>
  Lines 76 to 81 of \<open>userProfile\<close>. \<open>this._profileFields\<close> is an array, so the outer
  \<open>if\<close> is always taken.
\<close>

definition requestURL :: "('a urlObject_scheme) uri \<Rightarrow> 'o strategy \<Rightarrow> jsstring" where
  "requestURL uri this =
     (let url = parse uri (this_profileURL this);
          fields = convertProfileFields (this_profileFields this);
          url = (if fields \<noteq> []
                 then url\<lparr>search :=
                   Some ((if truthy (search url) then the (search url) @ js ''&'' else [])
                           @ js ''fields='' @ fields)\<rparr>
                 else url)
      in format uri url)"

subsection \<open>The profile\<close>

record name_parts =
  familyName :: jsval
  givenName :: jsval

record profile =
  provider :: jsstring
  id' :: jsval
  displayName :: jsval
  name' :: name_parts
  username :: jsval
  raw :: jsstring
  json :: jsval

text \<open>
  What \<open>done\<close> receives as its error: the \<open>InternalOAuthError\<close> with its message and
  the engine's error, or the exception that the \<open>try\<close> block caught.
\<close>

datatype 'e failure =
    InternalOAuthError jsstring 'e
  | Caught js_error

text \<open>
  The property read \<open>json.k\<close> for a key \<open>k\<close> that no built-in prototype defines and
  that is neither \<open>length\<close> nor an index (the five keys that \<open>userProfile\<close> reads are
  such): on \<open>null\<close> and \<open>undefined\<close> it throws a \<open>TypeError\<close>, on an object it is
  the member of that key (the last one of that key, \<open>undefined\<close> when there is none),
  on everything else \<open>undefined\<close>.
\<close>

definition member :: "(jsstring \<times> jsval) list \<Rightarrow> jsstring \<Rightarrow> jsval" where
  "member members k = (case map_of (rev members) k of None \<Rightarrow> JUndefined | Some x \<Rightarrow> x)"

definition get_property :: "jsval \<Rightarrow> jsstring \<Rightarrow> js_error + jsval" where
  "get_property v k =
     (case v of
        JUndefined \<Rightarrow> Inl TypeError
      | JNull \<Rightarrow> Inl TypeError
      | JObj members \<Rightarrow> Inr (member members k)
      | _ \<Rightarrow> Inr JUndefined)"

text \<open>A statement that may throw, followed by the rest of the block.\<close>

definition try_bind :: "js_error + 'a \<Rightarrow> ('a \<Rightarrow> js_error + 'b) \<Rightarrow> js_error + 'b" where
  "try_bind r f = (case r of Inl e \<Rightarrow> Inl e | Inr x \<Rightarrow> f x)"

text \<open>The \<open>try\<close> block (lines 87 to 99), in the order of its reads.\<close>

definition try_block :: "jsstring \<Rightarrow> js_error + profile" where
  "try_block body =
     try_bind (JSON_parse body) (\<lambda>json.
     try_bind (get_property json (js ''id'')) (\<lambda>id.
     try_bind (get_property json (js ''full_name'')) (\<lambda>full_name.
     try_bind (get_property json (js ''last_name'')) (\<lambda>last_name.
     try_bind (get_property json (js ''first_name'')) (\<lambda>first_name.
     try_bind (get_property json (js ''username'')) (\<lambda>username.
       Inr \<lparr>provider = js ''instagram'',
            id' = id,
            displayName = full_name,
            name' = \<lparr>familyName = last_name, givenName = first_name\<rparr>,
            username = username,
            raw = body,
            json = json\<rparr>))))))"

text \<open>
  The callback given to \<open>this._oauth2.get\<close> (lines 83 to 103); the result is what it
  passes to \<open>done\<close>, which is taken to return. \<open>err\<close> is \<open>None\<close> for \<open>null\<close>,
  otherwise the engine's error object, which is truthy; \<open>body\<close> is the text of the
  response.
\<close>

definition get_callback :: "'e option \<Rightarrow> jsstring \<Rightarrow> 'e failure + profile" where
  "get_callback err body =
     (case err of
        Some e \<Rightarrow> Inl (InternalOAuthError (js ''failed to fetch user profile'') e)
      | None \<Rightarrow>
          (case try_block body of
             Inl e \<Rightarrow> Inl (Caught e)
           | Inr profile \<Rightarrow> Inr profile))"

text \<open>
  \<open>userProfile\<close>. The engine's \<open>get\<close> is a parameter: given the engine, the URL and
  the access token it yields the arguments \<open>err\<close> and \<open>body\<close> of the callback.
\<close>

definition userProfile ::
  "('a urlObject_scheme) uri \<Rightarrow> ('o \<Rightarrow> jsstring \<Rightarrow> jsstring \<Rightarrow> 'e option \<times> jsstring)
     \<Rightarrow> 'o strategy \<Rightarrow> jsstring \<Rightarrow> 'e failure + profile" where
  "userProfile uri get this accessToken =
     (case get (this_oauth2 this) (requestURL uri this) accessToken of
        (err, body) \<Rightarrow> get_callback err body)"

section \<open>The libraries, for concrete instances\<close>

text \<open>
  The theorems below hold for every \<open>uri\<close> module, every inherited constructor and
  every engine. Their instances at concrete inputs need concrete libraries; this section
  models the two that the source requires, on the inputs used there.
\<close>

subsection \<open>Node's \<open>url\<close> module\<close>

text \<open>
  The object that \<open>url.parse\<close> returns for an absolute URL
  \<open>scheme://host/path?query#fragment\<close> whose scheme is \<open>http\<close> or \<open>https\<close> in
  lower case, whose host is a lower-case name without user information, and which holds
  no white space, no backslash and none of the characters that \<open>url.parse\<close> escapes:
  \<open>protocol\<close> ends with the colon, \<open>search\<close> begins with the question mark and
  \<open>hash\<close> with the number sign, both \<open>null\<close> when the URL has none, and an empty
  path becomes \<open>/\<close>. The properties \<open>auth\<close>, \<open>port\<close>, \<open>hostname\<close>, \<open>query\<close>,
  \<open>path\<close> and \<open>href\<close> are left out: on such a URL \<open>url.format\<close> prints
  \<open>protocol\<close>, \<open>host\<close>, \<open>pathname\<close>, \<open>search\<close> and \<open>hash\<close>.
\<close>

record legacyUrl = urlObject +
  protocol :: "jsstring option"
  slashes :: bool
  host :: "jsstring option"
  pathname :: "jsstring option"
  hash :: "jsstring option"

definition non_empty :: "jsstring \<Rightarrow> jsstring option" where
  "non_empty s = (if s = [] then None else Some s)"

definition legacy_parse :: "jsstring \<Rightarrow> legacyUrl" where
  "legacy_parse url =
     (let proto = takeWhile (\<lambda>c. c \<noteq> cu CHR '':'') url @ js '':'';
          rest = drop (length proto + 2) url;
          hostEnd = (\<lambda>c. c = cu CHR ''/'' \<or> c = cu CHR ''?'' \<or> c = cu CHR ''#'');
          hostname = takeWhile (\<lambda>c. \<not> hostEnd c) rest;
          rest = dropWhile (\<lambda>c. \<not> hostEnd c) rest;
          beforeHash = takeWhile (\<lambda>c. c \<noteq> cu CHR ''#'') rest;
          path = takeWhile (\<lambda>c. c \<noteq> cu CHR ''?'') beforeHash
      in \<lparr>search = non_empty (dropWhile (\<lambda>c. c \<noteq> cu CHR ''?'') beforeHash),
          protocol = Some proto,
          slashes = True,
          host = Some hostname,
          pathname = Some (if path = [] then js ''/'' else path),
          hash = non_empty (dropWhile (\<lambda>c. c \<noteq> cu CHR ''#'') rest)\<rparr>)"

text \<open>
  \<open>url.format\<close> on such an object, whose \<open>search\<close> the caller may have replaced by
  a string that holds no number sign: a \<open>search\<close> that does not begin with the
  question mark gets one.
\<close>

definition legacy_format :: "legacyUrl \<Rightarrow> jsstring" where
  "legacy_format u =
     (let protocol = or_string (protocol u) [];
          host = or_string (host u) [];
          pathname = or_string (pathname u) [];
          hash = or_string (hash u) [];
          search = or_string (search u) [];
          search = (if search \<noteq> [] \<and> hd search \<noteq> cu CHR ''?''
                    then js ''?'' @ search else search)
      in protocol @ (if slashes u then js ''//'' else []) @ host @ pathname @ search @ hash)"

definition legacy_url :: "legacyUrl uri" where
  "legacy_url = \<lparr>parse = legacy_parse, format = legacy_format\<rparr>"

subsection \<open>The inherited constructor\<close>

text \<open>
  The constructor of passport-oauth2 throws a \<open>TypeError\<close> when the verify callback,
  the authorization URL, the token URL or the client id is missing; otherwise it
  creates the engine from the client id, the client secret and the two endpoints.
\<close>

record oauth2 =
  clientId :: jsstring
  clientSecret' :: "jsstring option"
  authorizeUrl :: jsstring
  accessTokenUrl :: jsstring

definition OAuth2Strategy :: "options \<Rightarrow> 'v option \<Rightarrow> js_error + oauth2" where
  "OAuth2Strategy options verify =
     (if verify = None then Inl TypeError
      else if \<not> truthy (authorizationURL options) then Inl TypeError
      else if \<not> truthy (tokenURL options) then Inl TypeError
      else if \<not> truthy (clientID options) then Inl TypeError
      else Inr \<lparr>clientId = the (clientID options),
                clientSecret' = clientSecret options,
                authorizeUrl = the (authorizationURL options),
                accessTokenUrl = the (tokenURL options)\<rparr>)"

subsection \<open>Example inputs\<close>

text \<open>
  The options of the example in the source, the strategy constructed from them, variants
  of both, and engines whose \<open>get\<close> answers with a fixed body or a fixed error.
\<close>

definition example_options :: options where
  "example_options =
     empty_options\<lparr>clientID := Some (js ''123-456-789''),
                   clientSecret := Some (js ''shhh-its-a-secret''),
                   callbackURL := Some (js ''https://www.example.net/auth/instagram/callback'')\<rparr>"

definition example_oauth2 :: oauth2 where
  "example_oauth2 =
     \<lparr>clientId = js ''123-456-789'',
      clientSecret' = Some (js ''shhh-its-a-secret''),
      authorizeUrl = js ''https://api.instagram.com/oauth/authorize/'',
      accessTokenUrl = js ''https://api.instagram.com/oauth/access_token''\<rparr>"

definition example_strategy :: "oauth2 strategy" where
  "example_strategy =
     \<lparr>this_name = js ''instagram'',
      this_oauth2 = example_oauth2,
      this_profileURL = js ''https://graph.instagram.com/me'',
      this_profileFields = [js ''id'', js ''username'']\<rparr>"

definition selective_options :: options where
  "selective_options =
     example_options\<lparr>profileFields := Some [js ''id'', js ''username'', js ''media_count'']\<rparr>"

definition selective_strategy :: "oauth2 strategy" where
  "selective_strategy =
     example_strategy\<lparr>this_profileFields := [js ''id'', js ''username'', js ''media_count'']\<rparr>"

definition fieldless_options :: options where
  "fieldless_options = example_options\<lparr>profileFields := Some []\<rparr>"

definition queried_strategy :: "oauth2 strategy" where
  "queried_strategy =
     example_strategy\<lparr>this_profileURL := js ''https://graph.instagram.com/me?locale=en''\<rparr>"

definition unselective_strategy :: "oauth2 strategy" where
  "unselective_strategy = example_strategy\<lparr>this_profileFields := []\<rparr>"

definition pathless_strategy :: "oauth2 strategy" where
  "pathless_strategy =
     example_strategy\<lparr>this_profileURL := js ''https://graph.instagram.com'',
                      this_profileFields := []\<rparr>"

definition partial_body :: jsstring where
  \<open>partial_body = js ''{"id":"42","username":"alice"}''\<close>

definition example_body :: jsstring where
  \<open>example_body =
     js ''{"id":"42","username":"alice","full_name":"Alice A","first_name":"Alice","last_name":"A"}''\<close>

record oauth_error =
  statusCode :: nat
  data :: jsstring

definition get_body :: "jsstring \<Rightarrow> oauth2 \<Rightarrow> jsstring \<Rightarrow> jsstring \<Rightarrow> oauth_error option \<times> jsstring" where
  "get_body body engine url accessToken = (None, body)"

definition get_error :: "oauth_error \<Rightarrow> oauth2 \<Rightarrow> jsstring \<Rightarrow> jsstring \<Rightarrow> oauth_error option \<times> jsstring" where
  "get_error e engine url accessToken = (Some e, [])"

section \<open>Evaluation\<close>

lemmas js_eval = js_def cu_def

lemmas json_eval = JSON_parse_def is_ws_def next_token_def punctuator_def is_digit_def
  lex_literal_def lex_number_def lex_int_def lex_frac_def lex_exp_def lex_digits_def

lemmas profile_eval = userProfile_def get_callback_def try_block_def try_bind_def
  get_property_def

lemmas url_eval = requestURL_def legacy_url_def legacy_parse_def legacy_format_def
  non_empty_def or_string_def truthy_def

lemmas fields_eval = convertProfileFields_def pushField_def map_get_def map_object_def
  object_prototype_def

lemmas construction_eval = Strategy_def OAuth2Strategy_def example_options_def
  empty_options_def example_strategy_def example_oauth2_def or_string_def or_array_def
  truthy_def

section \<open>Facts about \<open>JSON.parse\<close>\<close>

text \<open>The only error is the \<open>SyntaxError\<close>, and \<open>undefined\<close> is never the result.\<close>

lemma JSON_parse_error: "JSON_parse body = Inl e \<Longrightarrow> e = SyntaxError"
  by (auto simp: JSON_parse_def split: option.splits prod.splits list.splits)

lemma parse_value_defined: "parse_value ts = Some (v, r) \<Longrightarrow> v \<noteq> JUndefined"
  by (cases ts rule: parse_value.cases) auto

lemma JSON_parse_defined: "JSON_parse body \<noteq> Inr JUndefined"
  by (auto simp: JSON_parse_def split: option.splits prod.splits list.splits
      dest: parse_value_defined)

lemma member_missing: "k \<notin> fst ` set members \<Longrightarrow> member members k = JUndefined"
proof -
  assume "k \<notin> fst ` set members"
  then have "k \<notin> fst ` set (rev members)" by simp
  then have "map_of (rev members) k = None" by (simp add: map_of_eq_None_iff)
  then show ?thesis by (simp add: member_def)
qed

section \<open>Field-list conversion\<close>

text \<open>
  Every key of \<open>map\<close> is mapped to itself. So a list none of whose entries names a
  property of \<open>Object.prototype\<close> is converted to its entries joined by commas, in
  their order.
\<close>

lemma map_object_self: "map_of map_object f = Some v \<Longrightarrow> v = FString f"
  by (auto simp: map_object_def split: if_splits)

lemma pushField_plain:
  "map_of object_prototype f = None \<Longrightarrow> pushField acc f = acc @ [FString f]"
  by (auto simp: pushField_def map_get_def split: option.splits dest: map_object_self)

lemma foldl_pushField_plain:
  "\<forall>f \<in> set fs. map_of object_prototype f = None \<Longrightarrow>
     foldl pushField acc fs = acc @ map FString fs"
  by (induction fs arbitrary: acc) (simp_all add: pushField_plain)

lemma convertProfileFields_plain:
  assumes "\<forall>f \<in> set fs. map_of object_prototype f = None"
  shows "convertProfileFields fs = join (js '','') fs"
  using foldl_pushField_plain[OF assms, of "[]"]
  by (simp add: convertProfileFields_def comp_def)

lemma convertProfileFields_example:
  "convertProfileFields [js ''id'', js ''photos_count''] = js ''id,photos_count''"
  by (simp add: fields_eval js_eval)

text \<open>
  C2: for every non-empty list of field names the result is the comma-joined list in
  which a mapped entry is replaced by its mapped name and every other entry is kept.
  The code does not do this for the list \<open>username, toString\<close>: \<open>toString\<close> is not
  a key of the map, yet \<open>map[f]\<close> finds the method that the map inherits, the test
  for \<open>undefined\<close> fails, and the function is pushed and printed.
\<close>

theorem convertProfileFields_inherited_in_list:
  "map_of map_object (js ''toString'') = None
   \<and> convertProfileFields [js ''username'', js ''toString'']
       = js ''username,function toString() { [native code] }''
   \<and> convertProfileFields [js ''username'', js ''toString'']
       \<noteq> join (js '','') [js ''username'', js ''toString'']"
  by (simp add: fields_eval js_eval)

text \<open>
  C5: a field name that is not one of the four mapped keys is appended unchanged. The
  code does not do this for the name \<open>constructor\<close>: the read \<open>map[f]\<close> finds the
  inherited \<open>Object\<close> function, which is printed in place of the name.
\<close>

theorem convertProfileFields_inherited_name:
  "map_of map_object (js ''constructor'') = None
   \<and> convertProfileFields [js ''constructor''] = js ''function Object() { [native code] }''
   \<and> convertProfileFields [js ''constructor''] \<noteq> js ''constructor''"
  by (simp add: fields_eval js_eval)

section \<open>Construction\<close>

text \<open>
  C10, as the code has it: without options, or with the empty object, the constructor
  hands the options with the default authorization and token endpoints to the inherited
  constructor and raises nothing of its own. When the inherited constructor throws,
  construction fails with its error; otherwise the strategy holds the engine, the
  default profile endpoint and the fields \<open>id\<close> and \<open>username\<close>.
\<close>

theorem Strategy_defaults:
  "Strategy base None verify =
     (case base default_options verify of
        Inl e \<Rightarrow> Inl e
      | Inr oauth2 \<Rightarrow>
          Inr \<lparr>this_name = js ''instagram'',
               this_oauth2 = oauth2,
               this_profileURL = js ''https://graph.instagram.com/me'',
               this_profileFields = [js ''id'', js ''username'']\<rparr>)
   \<and> Strategy base (Some empty_options) verify = Strategy base None verify"
  by (simp add: Strategy_def Let_def default_options_def empty_options_def or_string_def
      or_array_def truthy_def split: sum.splits)

text \<open>
  With the constructor of passport-oauth2, construction from the empty object fails:
  there is no client id.
\<close>

theorem Strategy_without_client_id:
  "Strategy OAuth2Strategy (Some empty_options) (Some ()) = Inl TypeError"
  by (simp add: Strategy_def OAuth2Strategy_def empty_options_def or_string_def truthy_def
      js_eval)

text \<open>
  C7, as the code has it: when the options give no \<open>profileFields\<close>, the constructed
  strategy holds the fields \<open>id\<close> and \<open>username\<close>, a non-empty list of non-empty
  strings; a list that the options give is held as it is.
\<close>

theorem Strategy_profileFields:
  assumes "Strategy base options verify = Inr this"
  shows "(Option.bind options profileFields = None \<longrightarrow>
            this_profileFields this = [js ''id'', js ''username'']
            \<and> this_profileFields this \<noteq> []
            \<and> (\<forall>f \<in> set (this_profileFields this). f \<noteq> []))
       \<and> (\<forall>fs. Option.bind options profileFields = Some fs \<longrightarrow> this_profileFields this = fs)"
  using assms
  by (cases options)
    (auto simp: Strategy_def Let_def or_array_def empty_options_def js_eval
      split: sum.splits option.splits)

theorem Strategy_profileFields_witness:
  "Strategy OAuth2Strategy (Some example_options) (Some ()) = Inr example_strategy
   \<and> Option.bind (Some example_options) profileFields = None
   \<and> this_profileFields example_strategy = [js ''id'', js ''username'']
   \<and> Strategy OAuth2Strategy (Some selective_options) (Some ()) = Inr selective_strategy
   \<and> Option.bind (Some selective_options) profileFields =
       Some [js ''id'', js ''username'', js ''media_count'']
   \<and> this_profileFields selective_strategy = [js ''id'', js ''username'', js ''media_count'']"
proof -
  have s: "Strategy OAuth2Strategy (Some example_options) (Some ()) = Inr example_strategy"
    by (simp add: construction_eval js_eval)
  have n: "Option.bind (Some example_options) profileFields = None"
    by (simp add: example_options_def empty_options_def)
  have s': "Strategy OAuth2Strategy (Some selective_options) (Some ()) = Inr selective_strategy"
    by (simp add: construction_eval selective_options_def selective_strategy_def js_eval)
  have n': "Option.bind (Some selective_options) profileFields =
      Some [js ''id'', js ''username'', js ''media_count'']"
    by (simp add: selective_options_def)
  from Strategy_profileFields[OF s] Strategy_profileFields[OF s'] s n s' n'
  show ?thesis by simp
qed

text \<open>An empty list given in the options is accepted and held: the list is empty.\<close>

theorem Strategy_profileFields_empty:
  "Strategy OAuth2Strategy (Some fieldless_options) (Some ())
     = Inr (example_strategy\<lparr>this_profileFields := []\<rparr>)"
  by (simp add: construction_eval fieldless_options_def js_eval)

section \<open>The request URL\<close>

text \<open>
  C6: when the parsed profile endpoint has a query string and the converted field
  string is not empty, the URL that \<open>userProfile\<close> requests is the parsed endpoint,
  re-serialized, whose \<open>search\<close> is the old one followed by \<open>&fields=\<close> and the
  field string; nothing else of the parsed endpoint is changed.
\<close>

theorem requestURL_appends_fields:
  assumes "search (parse uri (this_profileURL this)) = Some query"
    and "query \<noteq> []"
    and "convertProfileFields (this_profileFields this) \<noteq> []"
  shows "requestURL uri this =
           format uri ((parse uri (this_profileURL this))
             \<lparr>search := Some (query @ js ''&fields=''
                               @ convertProfileFields (this_profileFields this))\<rparr>)"
  using assms by (simp add: requestURL_def Let_def truthy_def js_def)

theorem requestURL_appends_fields_witness:
  "search (parse legacy_url (this_profileURL queried_strategy)) = Some (js ''?locale=en'')
   \<and> convertProfileFields (this_profileFields queried_strategy) = js ''id,username''
   \<and> requestURL legacy_url queried_strategy =
       js ''https://graph.instagram.com/me?locale=en&fields=id,username''"
proof -
  have s: "search (parse legacy_url (this_profileURL queried_strategy)) = Some (js ''?locale=en'')"
    by (simp add: queried_strategy_def example_strategy_def url_eval js_eval)
  have f: "convertProfileFields (this_profileFields queried_strategy) = js ''id,username''"
    by (simp add: queried_strategy_def example_strategy_def fields_eval js_eval)
  have "requestURL legacy_url queried_strategy =
      format legacy_url ((parse legacy_url (this_profileURL queried_strategy))
        \<lparr>search := Some (js ''?locale=en'' @ js ''&fields=''
                          @ convertProfileFields (this_profileFields queried_strategy))\<rparr>)"
    using requestURL_appends_fields[of legacy_url queried_strategy "js ''?locale=en''"] s f
    by (simp add: js_eval)
  then have "requestURL legacy_url queried_strategy =
       js ''https://graph.instagram.com/me?locale=en&fields=id,username''"
    unfolding f
    by (simp add: queried_strategy_def example_strategy_def legacy_url_def legacy_parse_def
        legacy_format_def non_empty_def or_string_def truthy_def js_eval)
  with s f show ?thesis by simp
qed

text \<open>
  With Node's \<open>url\<close> module the same is seen in the text of the URL: the requested
  URL is the re-serialized endpoint with \<open>&fields=\<close> and the field string put right
  behind its query string.
\<close>

lemma legacy_search_question:
  assumes "search (legacy_parse url) = Some query"
  shows "query \<noteq> [] \<and> hd query = cu CHR ''?''"
proof -
  define beforeHash where "beforeHash =
    takeWhile (\<lambda>c. c \<noteq> cu CHR ''#'')
      (dropWhile (\<lambda>c. \<not> (c = cu CHR ''/'' \<or> c = cu CHR ''?'' \<or> c = cu CHR ''#''))
        (drop (length (takeWhile (\<lambda>c. c \<noteq> cu CHR '':'') url @ js '':'') + 2) url))"
  from assms have "non_empty (dropWhile (\<lambda>c. c \<noteq> cu CHR ''?'') beforeHash) = Some query"
    by (simp add: legacy_parse_def Let_def beforeHash_def)
  then have q: "query = dropWhile (\<lambda>c. c \<noteq> cu CHR ''?'') beforeHash" and n: "query \<noteq> []"
    by (auto simp: non_empty_def split: if_splits)
  from n have "\<not> (hd query \<noteq> cu CHR ''?'')"
    unfolding q by (rule hd_dropWhile)
  with n show ?thesis by simp
qed

lemma legacy_requestURL_query:
  assumes "search (legacy_parse (this_profileURL this)) = Some query"
    and "convertProfileFields (this_profileFields this) \<noteq> []"
  shows "\<exists>before after.
           legacy_format (legacy_parse (this_profileURL this)) = before @ query @ after
         \<and> requestURL legacy_url this =
             before @ query @ js ''&fields='' @ convertProfileFields (this_profileFields this)
               @ after"
proof -
  from legacy_search_question[OF assms(1)] have q: "query \<noteq> []" "hd query = cu CHR ''?''"
    by simp_all
  define u where "u = legacy_parse (this_profileURL this)"
  define before where
    "before = or_string (protocol u) [] @ (if slashes u then js ''//'' else [])
                @ or_string (host u) [] @ or_string (pathname u) []"
  have 1: "legacy_format u = before @ query @ or_string (hash u) []"
    using assms(1) q
    by (simp add: legacy_format_def Let_def before_def u_def or_string_def truthy_def)
  have 2: "requestURL legacy_url this =
      before @ query @ js ''&fields='' @ convertProfileFields (this_profileFields this)
        @ or_string (hash u) []"
    using assms q
    by (simp add: requestURL_def legacy_url_def legacy_format_def Let_def before_def
        u_def[symmetric] or_string_def truthy_def js_def)
  from 1 2 show ?thesis unfolding u_def by blast
qed

text \<open>
  C9, as the code has it: when the field list converts to the empty string, no
  \<open>fields=\<close> parameter is added: the requested URL is the parsed profile endpoint,
  re-serialized as it was parsed.
\<close>

theorem requestURL_without_fields:
  assumes "convertProfileFields (this_profileFields this) = []"
  shows "requestURL uri this = format uri (parse uri (this_profileURL this))"
  using assms by (simp add: requestURL_def)

text \<open>For the default endpoint and the empty list, that is the endpoint itself.\<close>

theorem requestURL_without_fields_witness:
  "convertProfileFields (this_profileFields unselective_strategy) = []
   \<and> requestURL legacy_url unselective_strategy = js ''https://graph.instagram.com/me''
   \<and> requestURL legacy_url unselective_strategy = this_profileURL unselective_strategy"
proof -
  have c: "convertProfileFields (this_profileFields unselective_strategy) = []"
    by (simp add: unselective_strategy_def convertProfileFields_def)
  have "format legacy_url (parse legacy_url (this_profileURL unselective_strategy))
      = js ''https://graph.instagram.com/me''"
    by (simp add: unselective_strategy_def example_strategy_def legacy_url_def
        legacy_parse_def legacy_format_def non_empty_def or_string_def truthy_def js_eval)
  with requestURL_without_fields[OF c, of legacy_url] c show ?thesis
    by (simp add: unselective_strategy_def example_strategy_def)
qed

text \<open>
  It is not always the endpoint: parsing gives an endpoint without a path the path
  \<open>/\<close>, and the requested URL ends with it.
\<close>

theorem requestURL_pathless:
  "convertProfileFields (this_profileFields pathless_strategy) = []
   \<and> requestURL legacy_url pathless_strategy = js ''https://graph.instagram.com/''
   \<and> requestURL legacy_url pathless_strategy \<noteq> this_profileURL pathless_strategy"
  by (simp add: pathless_strategy_def example_strategy_def convertProfileFields_def
      url_eval js_eval)

section \<open>Fetching the profile\<close>

text \<open>
  C3: whenever the engine's \<open>get\<close> reports an error, \<open>userProfile\<close> completes with
  the \<open>InternalOAuthError\<close> of message \<open>failed to fetch user profile\<close> that wraps the
  engine's error, whatever the body is: nothing is decoded and no profile is produced.
\<close>

theorem userProfile_fetch_failed:
  assumes "get (this_oauth2 this) (requestURL uri this) accessToken = (Some cause, body)"
  shows "userProfile uri get this accessToken =
           Inl (InternalOAuthError (js ''failed to fetch user profile'') cause)"
  using assms by (simp add: userProfile_def get_callback_def)

theorem userProfile_fetch_failed_witness:
  "get_error \<lparr>statusCode = 401, data = js ''denied''\<rparr> (this_oauth2 example_strategy)
      (requestURL legacy_url example_strategy) (js ''token'')
     = (Some \<lparr>statusCode = 401, data = js ''denied''\<rparr>, [])
   \<and> userProfile legacy_url (get_error \<lparr>statusCode = 401, data = js ''denied''\<rparr>)
        example_strategy (js ''token'')
     = Inl (InternalOAuthError (js ''failed to fetch user profile'')
              \<lparr>statusCode = 401, data = js ''denied''\<rparr>)"
  using userProfile_fetch_failed[of "get_error \<lparr>statusCode = 401, data = js ''denied''\<rparr>"
      example_strategy legacy_url "js ''token''" "\<lparr>statusCode = 401, data = js ''denied''\<rparr>" "[]"]
  by (simp add: get_error_def)

text \<open>
  C4: when the engine reports no error and the body is not valid JSON, \<open>userProfile\<close>
  completes with the error that \<open>JSON.parse\<close> threw, the \<open>SyntaxError\<close>, which is
  not an \<open>InternalOAuthError\<close>, and with no profile; so it does for the body
  \<open>not json\<close>.
\<close>

theorem userProfile_decode_failed:
  assumes "get (this_oauth2 this) (requestURL uri this) accessToken = (None, body)"
  shows "(JSON_parse body = Inl e \<longrightarrow>
            userProfile uri get this accessToken = Inl (Caught e)
            \<and> e = SyntaxError
            \<and> (\<forall>message cause. Inl (Caught e) \<noteq>
                  (Inl (InternalOAuthError message cause) :: 'e failure + profile)))
       \<and> (body = js ''not json'' \<longrightarrow>
            userProfile uri get this accessToken = Inl (Caught SyntaxError))"
proof (intro conjI impI allI)
  assume e: "JSON_parse body = Inl e"
  with assms show "userProfile uri get this accessToken = Inl (Caught e)"
    by (simp add: profile_eval)
  from e show "e = SyntaxError" by (rule JSON_parse_error)
  show "\<And>message cause. Inl (Caught e) \<noteq>
          (Inl (InternalOAuthError message cause) :: 'e failure + profile)"
    by simp
next
  assume b: "body = js ''not json''"
  have "JSON_parse (js ''not json'') = Inl SyntaxError"
    by (simp add: json_eval js_eval)
  with assms b show "userProfile uri get this accessToken = Inl (Caught SyntaxError)"
    by (simp add: profile_eval)
qed

theorem userProfile_decode_failed_witness:
  "get_body (js ''not json'') (this_oauth2 example_strategy)
       (requestURL legacy_url example_strategy) (js ''token'') = (None, js ''not json'')
   \<and> JSON_parse (js ''not json'') = Inl SyntaxError
   \<and> userProfile legacy_url (get_body (js ''not json'')) example_strategy (js ''token'')
       = Inl (Caught SyntaxError)"
  using userProfile_decode_failed[of "get_body (js ''not json'')" example_strategy legacy_url
      "js ''token''" "js ''not json''" SyntaxError]
  by (simp add: get_body_def json_eval js_eval)

text \<open>
  C1: when the engine reports no error and the body decodes to an object,
  \<open>userProfile\<close> completes with the profile of provider \<open>instagram\<close> whose id,
  username, display name, given name and family name are the members \<open>id\<close>,
  \<open>username\<close>, \<open>full_name\<close>, \<open>first_name\<close> and \<open>last_name\<close> of the object, and
  which keeps the body and the decoded object; for the example body of the
  specification this is the profile of Alice.
\<close>

theorem userProfile_normalizes:
  assumes "get (this_oauth2 this) (requestURL uri this) accessToken = (None, body)"
  shows "(JSON_parse body = Inr (JObj members) \<longrightarrow>
            userProfile uri get this accessToken =
              Inr \<lparr>provider = js ''instagram'',
                   id' = member members (js ''id''),
                   displayName = member members (js ''full_name''),
                   name' = \<lparr>familyName = member members (js ''last_name''),
                            givenName = member members (js ''first_name'')\<rparr>,
                   username = member members (js ''username''),
                   raw = body,
                   json = JObj members\<rparr>)
       \<and> (body = example_body \<longrightarrow>
            userProfile uri get this accessToken =
              Inr \<lparr>provider = js ''instagram'',
                   id' = JStr (js ''42''),
                   displayName = JStr (js ''Alice A''),
                   name' = \<lparr>familyName = JStr (js ''A''), givenName = JStr (js ''Alice'')\<rparr>,
                   username = JStr (js ''alice''),
                   raw = example_body,
                   json = JObj [(js ''id'', JStr (js ''42'')),
                                (js ''username'', JStr (js ''alice'')),
                                (js ''full_name'', JStr (js ''Alice A'')),
                                (js ''first_name'', JStr (js ''Alice'')),
                                (js ''last_name'', JStr (js ''A''))]\<rparr>)"
proof (intro conjI impI)
  assume "JSON_parse body = Inr (JObj members)"
  with assms show "userProfile uri get this accessToken =
              Inr \<lparr>provider = js ''instagram'',
                   id' = member members (js ''id''),
                   displayName = member members (js ''full_name''),
                   name' = \<lparr>familyName = member members (js ''last_name''),
                            givenName = member members (js ''first_name'')\<rparr>,
                   username = member members (js ''username''),
                   raw = body,
                   json = JObj members\<rparr>"
    by (simp add: profile_eval)
next
  assume b: "body = example_body"
  have "JSON_parse example_body = Inr (JObj [(js ''id'', JStr (js ''42'')),
                                (js ''username'', JStr (js ''alice'')),
                                (js ''full_name'', JStr (js ''Alice A'')),
                                (js ''first_name'', JStr (js ''Alice'')),
                                (js ''last_name'', JStr (js ''A''))])"
    by (simp add: example_body_def json_eval js_eval)
  with assms b show "userProfile uri get this accessToken =
              Inr \<lparr>provider = js ''instagram'',
                   id' = JStr (js ''42''),
                   displayName = JStr (js ''Alice A''),
                   name' = \<lparr>familyName = JStr (js ''A''), givenName = JStr (js ''Alice'')\<rparr>,
                   username = JStr (js ''alice''),
                   raw = example_body,
                   json = JObj [(js ''id'', JStr (js ''42'')),
                                (js ''username'', JStr (js ''alice'')),
                                (js ''full_name'', JStr (js ''Alice A'')),
                                (js ''first_name'', JStr (js ''Alice'')),
                                (js ''last_name'', JStr (js ''A''))]\<rparr>"
    by (simp add: profile_eval member_def js_eval)
qed

theorem userProfile_normalizes_witness:
  "get_body example_body (this_oauth2 example_strategy)
       (requestURL legacy_url example_strategy) (js ''token'') = (None, example_body)
   \<and> JSON_parse example_body =
       Inr (JObj [(js ''id'', JStr (js ''42'')),
                  (js ''username'', JStr (js ''alice'')),
                  (js ''full_name'', JStr (js ''Alice A'')),
                  (js ''first_name'', JStr (js ''Alice'')),
                  (js ''last_name'', JStr (js ''A''))])
   \<and> userProfile legacy_url (get_body example_body) example_strategy (js ''token'') =
       Inr \<lparr>provider = js ''instagram'',
            id' = JStr (js ''42''),
            displayName = JStr (js ''Alice A''),
            name' = \<lparr>familyName = JStr (js ''A''), givenName = JStr (js ''Alice'')\<rparr>,
            username = JStr (js ''alice''),
            raw = example_body,
            json = JObj [(js ''id'', JStr (js ''42'')),
                         (js ''username'', JStr (js ''alice'')),
                         (js ''full_name'', JStr (js ''Alice A'')),
                         (js ''first_name'', JStr (js ''Alice'')),
                         (js ''last_name'', JStr (js ''A''))]\<rparr>"
proof -
  let ?members = "[(js ''id'', JStr (js ''42'')),
                   (js ''username'', JStr (js ''alice'')),
                   (js ''full_name'', JStr (js ''Alice A'')),
                   (js ''first_name'', JStr (js ''Alice'')),
                   (js ''last_name'', JStr (js ''A''))]"
  have g: "get_body example_body (this_oauth2 example_strategy)
       (requestURL legacy_url example_strategy) (js ''token'') = (None, example_body)"
    by (simp add: get_body_def)
  have j: "JSON_parse example_body = Inr (JObj ?members)"
    by (simp add: example_body_def json_eval js_eval)
  have m: "member ?members (js ''id'') = JStr (js ''42'')"
    "member ?members (js ''full_name'') = JStr (js ''Alice A'')"
    "member ?members (js ''last_name'') = JStr (js ''A'')"
    "member ?members (js ''first_name'') = JStr (js ''Alice'')"
    "member ?members (js ''username'') = JStr (js ''alice'')"
    by (simp_all add: member_def js_eval)
  from userProfile_normalizes[of "get_body example_body" example_strategy legacy_url
      "js ''token''" example_body ?members] g j
  have "userProfile legacy_url (get_body example_body) example_strategy (js ''token'') =
      Inr \<lparr>provider = js ''instagram'',
           id' = member ?members (js ''id''),
           displayName = member ?members (js ''full_name''),
           name' = \<lparr>familyName = member ?members (js ''last_name''),
                    givenName = member ?members (js ''first_name'')\<rparr>,
           username = member ?members (js ''username''),
           raw = example_body,
           json = JObj ?members\<rparr>"
    by blast
  with g j show ?thesis unfolding m by simp
qed

text \<open>
  Every body that decodes to a value other than \<open>null\<close> gives a profile: each field
  is what the read of its property yields.
\<close>

lemma try_block_value:
  assumes "JSON_parse body = Inr doc" and "doc \<noteq> JNull"
  shows "\<exists>p. try_block body = Inr p \<and> provider p = js ''instagram''
          \<and> get_property doc (js ''id'') = Inr (id' p)
          \<and> get_property doc (js ''full_name'') = Inr (displayName p)
          \<and> get_property doc (js ''last_name'') = Inr (familyName (name' p))
          \<and> get_property doc (js ''first_name'') = Inr (givenName (name' p))
          \<and> get_property doc (js ''username'') = Inr (username p)
          \<and> raw p = body \<and> json p = doc"
proof -
  from assms(1) have "doc \<noteq> JUndefined" using JSON_parse_defined[of body] by auto
  with assms show ?thesis
    by (cases doc) (simp_all add: try_block_def try_bind_def get_property_def)
qed

text \<open>
  C8, as the code has it: \<open>userProfile\<close> completes in one of four ways. The engine
  reported an error, and the result is the \<open>InternalOAuthError\<close> that wraps it; or the
  body is not valid JSON, and the result is the \<open>SyntaxError\<close>; or the body is the
  JSON text \<open>null\<close>, and the result is the \<open>TypeError\<close> of the first property read;
  or the body decodes to any other value, and the result is a profile. A member that an
  object lacks is read as \<open>undefined\<close> and is no error.
\<close>

theorem userProfile_outcomes:
  assumes "get (this_oauth2 this) (requestURL uri this) accessToken = (err, body)"
  shows "((\<exists>cause. err = Some cause
            \<and> userProfile uri get this accessToken =
                Inl (InternalOAuthError (js ''failed to fetch user profile'') cause))
        \<or> (err = None \<and> JSON_parse body = Inl SyntaxError
            \<and> userProfile uri get this accessToken = Inl (Caught SyntaxError))
        \<or> (err = None \<and> JSON_parse body = Inr JNull
            \<and> userProfile uri get this accessToken = Inl (Caught TypeError))
        \<or> (err = None
            \<and> (\<exists>doc p. JSON_parse body = Inr doc \<and> doc \<noteq> JNull
                  \<and> userProfile uri get this accessToken = Inr p
                  \<and> provider p = js ''instagram''
                  \<and> get_property doc (js ''id'') = Inr (id' p)
                  \<and> get_property doc (js ''full_name'') = Inr (displayName p)
                  \<and> get_property doc (js ''last_name'') = Inr (familyName (name' p))
                  \<and> get_property doc (js ''first_name'') = Inr (givenName (name' p))
                  \<and> get_property doc (js ''username'') = Inr (username p)
                  \<and> raw p = body \<and> json p = doc)))
       \<and> (\<forall>members k. k \<notin> fst ` set members \<longrightarrow>
              get_property (JObj members) k = Inr JUndefined)"
proof (intro conjI allI impI)
  show "(\<exists>cause. err = Some cause
            \<and> userProfile uri get this accessToken =
                Inl (InternalOAuthError (js ''failed to fetch user profile'') cause))
        \<or> (err = None \<and> JSON_parse body = Inl SyntaxError
            \<and> userProfile uri get this accessToken = Inl (Caught SyntaxError))
        \<or> (err = None \<and> JSON_parse body = Inr JNull
            \<and> userProfile uri get this accessToken = Inl (Caught TypeError))
        \<or> (err = None
            \<and> (\<exists>doc p. JSON_parse body = Inr doc \<and> doc \<noteq> JNull
                  \<and> userProfile uri get this accessToken = Inr p
                  \<and> provider p = js ''instagram''
                  \<and> get_property doc (js ''id'') = Inr (id' p)
                  \<and> get_property doc (js ''full_name'') = Inr (displayName p)
                  \<and> get_property doc (js ''last_name'') = Inr (familyName (name' p))
                  \<and> get_property doc (js ''first_name'') = Inr (givenName (name' p))
                  \<and> get_property doc (js ''username'') = Inr (username p)
                  \<and> raw p = body \<and> json p = doc))"
  proof (cases err)
    case (Some cause)
    with assms show ?thesis by (simp add: userProfile_def get_callback_def)
  next
    case None
    then have u: "userProfile uri get this accessToken =
        (case try_block body of Inl e \<Rightarrow> Inl (Caught e) | Inr p \<Rightarrow> Inr p)"
      using assms by (simp add: userProfile_def get_callback_def)
    show ?thesis
    proof (cases "JSON_parse body")
      case (Inl e)
      then have "e = SyntaxError" by (rule JSON_parse_error)
      with Inl None u show ?thesis by (simp add: try_block_def try_bind_def)
    next
      case (Inr doc)
      show ?thesis
      proof (cases "doc = JNull")
        case True
        with Inr None u show ?thesis
          by (simp add: try_block_def try_bind_def get_property_def)
      next
        case False
        from try_block_value[OF Inr False] obtain p where
          "try_block body = Inr p" "provider p = js ''instagram''"
          "get_property doc (js ''id'') = Inr (id' p)"
          "get_property doc (js ''full_name'') = Inr (displayName p)"
          "get_property doc (js ''last_name'') = Inr (familyName (name' p))"
          "get_property doc (js ''first_name'') = Inr (givenName (name' p))"
          "get_property doc (js ''username'') = Inr (username p)"
          "raw p = body" "json p = doc"
          by blast
        with Inr None u False show ?thesis by simp
      qed
    qed
  qed
next
  fix members :: "(jsstring \<times> jsval) list" and k
  assume "k \<notin> fst ` set members"
  then show "get_property (JObj members) k = Inr JUndefined"
    by (simp add: get_property_def member_missing)
qed

text \<open>An object with an id and a username only: the name fields are \<open>undefined\<close>.\<close>

theorem userProfile_outcomes_witness:
  "get_body partial_body (this_oauth2 example_strategy)
       (requestURL legacy_url example_strategy) (js ''token'') = (None, partial_body)
   \<and> JSON_parse partial_body =
       Inr (JObj [(js ''id'', JStr (js ''42'')), (js ''username'', JStr (js ''alice''))])
   \<and> userProfile legacy_url (get_body partial_body) example_strategy (js ''token'') =
       Inr \<lparr>provider = js ''instagram'',
            id' = JStr (js ''42''),
            displayName = JUndefined,
            name' = \<lparr>familyName = JUndefined, givenName = JUndefined\<rparr>,
            username = JStr (js ''alice''),
            raw = partial_body,
            json = JObj [(js ''id'', JStr (js ''42'')), (js ''username'', JStr (js ''alice''))]\<rparr>"
proof -
  let ?doc = "JObj [(js ''id'', JStr (js ''42'')), (js ''username'', JStr (js ''alice''))]"
  have g: "get_body partial_body (this_oauth2 example_strategy)
       (requestURL legacy_url example_strategy) (js ''token'') = (None, partial_body)"
    by (simp add: get_body_def)
  have j: "JSON_parse partial_body = Inr ?doc"
    by (simp add: partial_body_def json_eval js_eval)
  from userProfile_outcomes[of "get_body partial_body" example_strategy legacy_url
      "js ''token''" None partial_body] g j
  obtain p where
    p: "userProfile legacy_url (get_body partial_body) example_strategy (js ''token'') = Inr p"
      "provider p = js ''instagram''"
      "get_property ?doc (js ''id'') = Inr (id' p)"
      "get_property ?doc (js ''full_name'') = Inr (displayName p)"
      "get_property ?doc (js ''last_name'') = Inr (familyName (name' p))"
      "get_property ?doc (js ''first_name'') = Inr (givenName (name' p))"
      "get_property ?doc (js ''username'') = Inr (username p)"
      "raw p = partial_body"
      "json p = ?doc"
    by auto
  from p(3-7) have
    "id' p = JStr (js ''42'')" "displayName p = JUndefined"
    "familyName (name' p) = JUndefined" "givenName (name' p) = JUndefined"
    "username p = JStr (js ''alice'')"
    by (simp_all add: get_property_def member_def js_eval)
  with p(1,2,8,9) have
    "userProfile legacy_url (get_body partial_body) example_strategy (js ''token'') =
       Inr \<lparr>provider = js ''instagram'',
            id' = JStr (js ''42''),
            displayName = JUndefined,
            name' = \<lparr>familyName = JUndefined, givenName = JUndefined\<rparr>,
            username = JStr (js ''alice''),
            raw = partial_body,
            json = ?doc\<rparr>"
    by (cases p, cases "name' p") simp
  with g j show ?thesis by simp
qed

text \<open>
  The body \<open>null\<close> is valid JSON, the engine reported no error, and still the
  result is an error: the \<open>TypeError\<close>.
\<close>

theorem userProfile_null_body:
  "JSON_parse (js ''null'') = Inr JNull
   \<and> userProfile legacy_url (get_body (js ''null'')) example_strategy (js ''token'')
       = Inl (Caught TypeError)"
  by (simp add: profile_eval get_body_def json_eval js_eval)

end
